theory Spec2Isabelle
  imports Main
begin

section \<open>Python values used by vaspy/atomco.py\<close>

text \<open>
  Exceptions of the source are values. \<open>CarfileValueError\<close> is the only exception class
  the module raises itself (vaspy.errors); the others are the built-in exceptions that
  indexing, unpacking, conversion, arithmetic on the wrong kind of value, calling what
  is no function and setting what cannot be set raise.
\<close>

datatype error = CarfileValueError | IndexError | ValueError | TypeError | AttributeError

text \<open>
  A slice bound of Python: a negative bound counts from the end, and every bound is
  clamped to the length, so a slice never raises.
\<close>

definition slice_bound :: "nat \<Rightarrow> int \<Rightarrow> nat" where
  "slice_bound n i = (if i < 0 then nat (max 0 (int n + i)) else min (nat i) n)"

definition py_slice :: "'a list \<Rightarrow> int \<Rightarrow> int \<Rightarrow> 'a list" where
  "py_slice xs i j =
     (let a = slice_bound (length xs) i; b = slice_bound (length xs) j
      in take (b - a) (drop a xs))"

text \<open>
  A numpy array built from a list of rows is two-dimensional when there is at least one
  row and all rows have one length; \<open>ncols\<close> is then its second dimension. An empty
  list gives a one-dimensional array, and (with the numpy of the source's time) so does
  a ragged list.
\<close>

definition ncols :: "'a list list \<Rightarrow> nat option" where
  "ncols rows =
     (case rows of
        [] \<Rightarrow> None
      | r # rs \<Rightarrow> if list_all (\<lambda>r'. length r' = length r) rs then Some (length r) else None)"

text \<open>
  \<open>arr[i:j, c] = v\<close> and \<open>arr[i:j, :] = v\<close>: the rows of the slice are changed, the
  others kept. numpy raises IndexError when the array is not two-dimensional or the
  column does not exist, also when the slice is empty.
\<close>

definition set_rows :: "('a list \<Rightarrow> 'a list) \<Rightarrow> int \<Rightarrow> int \<Rightarrow> 'a list list \<Rightarrow> 'a list list" where
  "set_rows f i j rows =
     (let a = slice_bound (length rows) i; b = slice_bound (length rows) j
      in take a rows @ map f (take (b - a) (drop a rows)) @ drop (a + (b - a)) rows)"

definition np_set_col :: "'a list list \<Rightarrow> int \<Rightarrow> int \<Rightarrow> nat \<Rightarrow> 'a \<Rightarrow> error + 'a list list" where
  "np_set_col arr i j c v =
     (case ncols arr of
        None \<Rightarrow> Inl IndexError
      | Some w \<Rightarrow> if c < w then Inr (set_rows (\<lambda>r. r[c := v]) i j arr) else Inl IndexError)"

definition np_set_all :: "'a list list \<Rightarrow> int \<Rightarrow> int \<Rightarrow> 'a \<Rightarrow> error + 'a list list" where
  "np_set_all arr i j v =
     (case ncols arr of
        None \<Rightarrow> Inl IndexError
      | Some w \<Rightarrow> Inr (set_rows (\<lambda>r. replicate (length r) v) i j arr))"

section \<open>Text: lines, whitespace, tokens, integers\<close>

text \<open>
  The whitespace of \<open>str.strip()\<close> and \<open>str.split()\<close> among the ASCII characters:
  space, \<open>\t \n \v \f \r\<close> and the separators \<open>0x1C\<close> to \<open>0x1F\<close>.
\<close>

definition isspace :: "char \<Rightarrow> bool" where
  "isspace c \<longleftrightarrow>
     c \<in> set [CHR '' '', CHR 0x09, CHR 0x0A, CHR 0x0B, CHR 0x0C, CHR 0x0D,
              CHR 0x1C, CHR 0x1D, CHR 0x1E, CHR 0x1F]"

definition strip :: "string \<Rightarrow> string" where
  "strip s = rev (dropWhile isspace (rev (dropWhile isspace s)))"

text \<open>
  \<open>f.readlines()\<close> on the text of a file (after the translation of line ends that
  text mode does): every line keeps its \<open>\n\<close>; a last line without one is a line too.
\<close>

fun readlines_acc :: "string \<Rightarrow> string \<Rightarrow> string list" where
  "readlines_acc cur [] = (if cur = [] then [] else [rev cur])"
| "readlines_acc cur (c # cs) =
     (if c = CHR 0x0A then rev (c # cur) # readlines_acc [] cs
      else readlines_acc (c # cur) cs)"

definition readlines :: "string \<Rightarrow> string list" where
  "readlines s = readlines_acc [] s"



text \<open>
  Modelled from the spec: \<open>str2list\<close> of vaspy.functions is not among the sources. The
  spec calls it a tokenizing utility over whitespace-tokenized lines: it turns a line
  into the list of its whitespace-separated tokens, as strings.
\<close>

fun tokens_acc :: "string \<Rightarrow> string \<Rightarrow> string list" where
  "tokens_acc cur [] = (if cur = [] then [] else [rev cur])"
| "tokens_acc cur (c # cs) =
     (if isspace c then (if cur = [] then tokens_acc [] cs else rev cur # tokens_acc [] cs)
      else tokens_acc (c # cur) cs)"

definition str2list :: "string \<Rightarrow> string list" where
  "str2list rawstr = tokens_acc [] rawstr"

text \<open>
  \<open>int(s)\<close> on a string: whitespace around is ignored, then an optional sign and at
  least one decimal digit; anything else is a ValueError (\<open>None\<close>). Digit grouping
  with underscores and digits outside ASCII are not covered: they give \<open>None\<close> here.
\<close>

definition digit_val :: "char \<Rightarrow> nat option" where
  "digit_val c =
     (let n = (of_char c :: nat) in if 48 \<le> n \<and> n \<le> 57 then Some (n - 48) else None)"

fun digits_acc :: "nat \<Rightarrow> string \<Rightarrow> nat option" where
  "digits_acc acc [] = Some acc"
| "digits_acc acc (c # cs) =
     (case digit_val c of None \<Rightarrow> None | Some d \<Rightarrow> digits_acc (10 * acc + d) cs)"

definition nat_of_digits :: "string \<Rightarrow> nat option" where
  "nat_of_digits s = (if s = [] then None else digits_acc 0 s)"

definition py_int :: "string \<Rightarrow> int option" where
  "py_int s =
     (case strip s of
        [] \<Rightarrow> None
      | c # cs \<Rightarrow>
          if c = CHR ''-'' then map_option (\<lambda>n. - int n) (nat_of_digits cs)
          else if c = CHR ''+'' then map_option int (nat_of_digits cs)
          else map_option int (nat_of_digits (c # cs)))"

text \<open>
  \<open>float(s)\<close> and the conversion of an array of strings by \<open>np.float64\<close> are not
  defined here: every function that converts text to a float takes the conversion of a
  whitespace-free text as a parameter \<open>pf\<close> (\<open>None\<close> is the ValueError). Python ignores
  whitespace around the number.
\<close>

definition py_float :: "(string \<Rightarrow> 'f option) \<Rightarrow> string \<Rightarrow> 'f option" where
  "py_float pf s = pf (strip s)"

text \<open>All elements converted, or the first failure.\<close>

fun those_all :: "'a option list \<Rightarrow> 'a list option" where
  "those_all [] = Some []"
| "those_all (x # xs) =
     (case x of None \<Rightarrow> None
      | Some y \<Rightarrow> (case those_all xs of None \<Rightarrow> None | Some ys \<Rightarrow> Some (y # ys)))"

text \<open>
  \<open>np.float64(arr)\<close> for a two-dimensional array of strings given by its rows; a
  ragged list of rows is no such array and the conversion raises.
\<close>

definition rectangular :: "'a list list \<Rightarrow> bool" where
  "rectangular rows = (rows = [] \<or> ncols rows \<noteq> None)"

definition np_float64 :: "(string \<Rightarrow> 'f option) \<Rightarrow> string list list \<Rightarrow> error + 'f list list" where
  "np_float64 pf rows =
     (if \<not> rectangular rows then Inl ValueError
      else case those_all (map (\<lambda>r. those_all (map (py_float pf) r)) rows) of
             None \<Rightarrow> Inl ValueError
           | Some d \<Rightarrow> Inr d)"

text \<open>
  Sequencing of steps that may raise: the first exception ends the computation.
\<close>

definition ebind :: "error + 'a \<Rightarrow> ('a \<Rightarrow> error + 'b) \<Rightarrow> error + 'b" where
  "ebind m f = (case m of Inl e \<Rightarrow> Inl e | Inr x \<Rightarrow> f x)"

text \<open>\<open>xs[i]\<close> for \<open>i \<ge> 0\<close>, \<open>xs[-1]\<close>, \<open>int(s)\<close> and \<open>float(s)\<close> with their exceptions.\<close>

definition item :: "'a list \<Rightarrow> nat \<Rightarrow> error + 'a" where
  "item xs i = (if i < length xs then Inr (xs ! i) else Inl IndexError)"

definition last_item :: "'a list \<Rightarrow> error + 'a" where
  "last_item xs = (if xs = [] then Inl IndexError else Inr (last xs))"

definition to_int :: "string \<Rightarrow> error + int" where
  "to_int s = (case py_int s of None \<Rightarrow> Inl ValueError | Some n \<Rightarrow> Inr n)"

definition to_float :: "(string \<Rightarrow> 'f option) \<Rightarrow> string \<Rightarrow> error + 'f" where
  "to_float pf s = (case py_float pf s of None \<Rightarrow> Inl ValueError | Some x \<Rightarrow> Inr x)"

text \<open>\<open>[int(i) for i in xs]\<close>\<close>

definition those_int :: "string list \<Rightarrow> error + int list" where
  "those_int xs = (case those_all (map py_int xs) of None \<Rightarrow> Inl ValueError | Some ns \<Rightarrow> Inr ns)"

text \<open>
  Modelled from the spec: \<open>line2list\<close> of vaspy.functions is not among the sources. The
  spec calls it a tokenizing utility that turns a line of text into a list of typed
  tokens: the whitespace-separated tokens of the line, each converted to a float (the
  default type); a token that is no float raises.
\<close>

definition line2list :: "(string \<Rightarrow> 'f option) \<Rightarrow> string \<Rightarrow> error + 'f list" where
  "line2list pf line =
     (case those_all (map (py_float pf) (str2list line)) of
        None \<Rightarrow> Inl ValueError
      | Some xs \<Rightarrow> Inr xs)"

section \<open>Text: formatting\<close>

text \<open>
  \<open>str(n)\<close> for an integer, which is also what the format \<open>d\<close> prints: the decimal
  digits, after a minus sign when \<open>n\<close> is negative.
\<close>

definition digit_char :: "nat \<Rightarrow> char" where
  "digit_char d = ''0123456789'' ! d"

function nat_digits :: "nat \<Rightarrow> string" where
  "nat_digits n = (if n < 10 then [digit_char n] else nat_digits (n div 10) @ [digit_char (n mod 10)])"
  by pat_completeness auto
termination
  by (relation "measure id") auto

declare nat_digits.simps [simp del]

definition str_int :: "int \<Rightarrow> string" where
  "str_int n = (if n < 0 then CHR ''-'' # nat_digits (nat (- n)) else nat_digits (nat n))"

text \<open>
  Padding to a width with spaces: text is put to the left (\<open>{:5s}\<close>), numbers to the
  right (\<open>{:5d}\<close>, \<open>{:18.12f}\<close>). A text wider than the field is printed whole.
\<close>

definition ljust :: "nat \<Rightarrow> string \<Rightarrow> string" where
  "ljust w s = s @ replicate (w - length s) (CHR '' '')"

definition rjust :: "nat \<Rightarrow> string \<Rightarrow> string" where
  "rjust w s = replicate (w - length s) (CHR '' '') @ s"

text \<open>
  The arguments of \<open>str.format\<close> in \<open>get_poscar_content\<close> are floats and strings. The
  format \<open>f\<close> prints a float and \<open>s\<close> a string; the other way round is a ValueError, a
  missing argument an IndexError. How a float is printed with \<open>p\<close> decimals
  (\<open>{:.pf}\<close>) is the parameter \<open>ff\<close>, as its parsing is \<open>pf\<close>.
\<close>

datatype 'f arg = Float 'f | Str string

datatype field = F nat nat | S nat

definition format_field :: "(nat \<Rightarrow> 'f \<Rightarrow> string) \<Rightarrow> field \<Rightarrow> 'f arg \<Rightarrow> error + string" where
  "format_field ff fld a =
     (case (fld, a) of
        (F w p, Float x) \<Rightarrow> Inr (rjust w (ff p x))
      | (S w, Str t) \<Rightarrow> Inr (ljust w t)
      | _ \<Rightarrow> Inl ValueError)"

text \<open>
  \<open>(fields).format(*args)\<close>: the fields are filled from left to right with the
  arguments at their positions; arguments left over are ignored.
\<close>

fun format_fields :: "(nat \<Rightarrow> 'f \<Rightarrow> string) \<Rightarrow> field list \<Rightarrow> 'f arg list \<Rightarrow> error + string" where
  "format_fields ff [] args = Inr []"
| "format_fields ff (fld # flds) [] = Inl IndexError"
| "format_fields ff (fld # flds) (a # args) =
     ebind (format_field ff fld a) (\<lambda>t.
     ebind (format_fields ff flds args) (\<lambda>ts. Inr (t @ ts)))"

text \<open>Appending the text of every row in turn; the first exception ends the loop.\<close>

fun concat_rows :: "('a \<Rightarrow> error + string) \<Rightarrow> 'a list \<Rightarrow> error + string" where
  "concat_rows g [] = Inr []"
| "concat_rows g (r # rs) =
     ebind (g r) (\<lambda>t. ebind (concat_rows g rs) (\<lambda>ts. Inr (t @ ts)))"

section \<open>AtomCo: the base class\<close>

text \<open>The attributes that the methods of \<open>AtomCo\<close> read.\<close>

record ('f, 'n, 'm) atomco =
  ntot :: int
  atoms :: "string list"
  atoms_num :: 'n
  natoms :: 'm
  data :: "'f list list"

text \<open>
  In \<open>XyzFile\<close> and \<open>PosCar\<close>, \<open>atoms_num\<close> holds the counts and \<open>natoms\<close> the pairs
  of a type and its count; \<open>CifFile\<close> stores them the other way round.
\<close>

definition verify :: "('f, 'n, 'm, 'z) atomco_scheme \<Rightarrow> error + unit" where
  "verify s = (if int (length (data s)) \<noteq> ntot s then Inl CarfileValueError else Inr ())"

text \<open>
  \<open>[0] + [sum(self.atoms_num[:i]) for i in range(1, len(self.atoms)+1)]\<close>, the prefix
  sums of the counts, one more than there are atom types.
\<close>

definition idx_list :: "string list \<Rightarrow> int list \<Rightarrow> int list" where
  "idx_list ats nums =
     0 # map (\<lambda>i. sum_list (take i nums)) [1..<length ats + 1]"

text \<open>\<open>zip(self.atoms, idx_list[:-1], idx_list[1:])\<close>\<close>

definition atom_ranges :: "string list \<Rightarrow> int list \<Rightarrow> (string \<times> int \<times> int) list" where
  "atom_ranges ats nums =
     (let il = idx_list ats nums in zip ats (zip (butlast il) (tl il)))"

text \<open>
  \<open>dict.setdefault(k, v)\<close> on a dictionary kept as the list of its items in insertion
  order: a key that is present keeps its value.
\<close>

definition setdefault :: "('k \<times> 'v) list \<Rightarrow> 'k \<Rightarrow> 'v \<Rightarrow> ('k \<times> 'v) list" where
  "setdefault d k v = (if k \<in> fst ` set d then d else d @ [(k, v)])"

text \<open>
  What \<open>self.atoms_num\<close> holds when a method of \<open>AtomCo\<close> reads it: the list of the
  counts (\<open>XyzFile\<close>, \<open>PosCar\<close>), or the pairs that \<open>zip(self.atoms, self.natoms)\<close>
  gave (\<open>CifFile\<close>).
\<close>

datatype counts_attr = IntList "int list" | PairList "(string \<times> int) list"

text \<open>
  \<open>sum(self.atoms_num[:i])\<close>. On pairs the sum of a slice that is not empty adds a
  pair to \<open>0\<close>, a TypeError (where \<open>zip\<close> gives an iterator the slice itself is the
  TypeError).
\<close>

fun py_sum_prefix :: "counts_attr \<Rightarrow> nat \<Rightarrow> error + int" where
  "py_sum_prefix (IntList nums) i = Inr (sum_list (take i nums))"
| "py_sum_prefix (PairList pairs) i = (if take i pairs = [] then Inr 0 else Inl TypeError)"

text \<open>The values of a list comprehension, or the first exception.\<close>

fun collect :: "(error + 'a) list \<Rightarrow> error + 'a list" where
  "collect [] = Inr []"
| "collect (x # xs) = ebind x (\<lambda>y. ebind (collect xs) (\<lambda>ys. Inr (y # ys)))"

text \<open>
  \<open>AtomCo.get_atomco_dict(data)\<close> (and \<open>get_tf_dict\<close>, the same code on \<open>tf\<close>), on an
  object of any class; \<open>view\<close> says which of the two kinds its \<open>atoms_num\<close> is. The
  method has no \<open>raise\<close> and no test of the number of rows; its slices and its \<open>zip\<close>
  cannot fail, the sums can.
\<close>

definition get_atomco_dict ::
  "('n \<Rightarrow> counts_attr) \<Rightarrow> ('f, 'n, 'm, 'z) atomco_scheme \<Rightarrow> 'a list
   \<Rightarrow> error + (string \<times> 'a list) list" where
  "get_atomco_dict view s data_list =
     ebind (collect (map (py_sum_prefix (view (atoms_num s))) [1..<length (atoms s) + 1])) (\<lambda>sums.
       let il = 0 # sums in
       Inr (foldl (\<lambda>atomco_dict (atom, idx, next_idx).
                    setdefault atomco_dict atom (py_slice data_list idx next_idx))
              [] (zip (atoms s) (zip (butlast il) (tl il)))))"

section \<open>XyzFile\<close>

record 'f xyzfile = "('f, int list, (string \<times> int) list) atomco" +
  step :: int

text \<open>
  The atom types in the order of their first occurrence:
  \<open>for atom in atoms_list: if atom not in atoms: atoms.append(atom)\<close>.
\<close>

definition first_seen :: "string list \<Rightarrow> string list" where
  "first_seen atoms_list =
     foldl (\<lambda>atoms atom. if atom \<notin> set atoms then atoms @ [atom] else atoms) [] atoms_list"

text \<open>
  \<open>XyzFile.load\<close> on the lines of the file. \<open>data_array[:, 0]\<close> needs a
  two-dimensional array with a first column: no rows, ragged rows or empty rows give
  an IndexError.
\<close>

definition XyzFile_load :: "(string \<Rightarrow> 'f option) \<Rightarrow> string list \<Rightarrow> error + 'f xyzfile" where
  "XyzFile_load pf content_list =
     ebind (item content_list 0) (\<lambda>line0.
     ebind (to_int (strip line0)) (\<lambda>ntot'.
     ebind (item content_list 1) (\<lambda>line1.
     ebind (last_item (str2list line1)) (\<lambda>word.
     ebind (to_int word) (\<lambda>step'.
       let data_list = map str2list (drop 2 content_list) in
       (case ncols data_list of
          None \<Rightarrow> Inl IndexError
        | Some w \<Rightarrow>
            if w = 0 then Inl IndexError
            else
              let atoms_list = map hd data_list in
              ebind (np_float64 pf (map tl data_list)) (\<lambda>data'.
                let atoms' = first_seen atoms_list;
                    atoms_num' = map (\<lambda>atom. int (count_list atoms_list atom)) atoms';
                    self = \<lparr>ntot = ntot', atoms = atoms', atoms_num = atoms_num',
                            natoms = zip atoms' atoms_num', data = data', step = step'\<rparr>
                in ebind (get_atomco_dict IntList self data') (\<lambda>_. Inr self))))))))"

text \<open>\<open>XyzFile(filename)\<close> on the text of the file: \<open>load\<close>, then \<open>verify\<close>.\<close>

definition XyzFile_init :: "(string \<Rightarrow> 'f option) \<Rightarrow> string \<Rightarrow> error + 'f xyzfile" where
  "XyzFile_init pf text =
     ebind (XyzFile_load pf (readlines text)) (\<lambda>self.
     ebind (verify self) (\<lambda>_. Inr self))"

section \<open>PosCar\<close>

record 'f poscar = "('f, int list, (string \<times> int) list) atomco" +
  bases_const :: 'f
  bases :: "'f list list"
  tf :: "string list list"
  totline :: int

text \<open>
  \<open>PosCar.load\<close> on the lines of the file. The loop over the coordinate lines also
  counts the flag triples in a local dictionary that nothing reads; it is left out.
\<close>

definition PosCar_load :: "(string \<Rightarrow> 'f option) \<Rightarrow> string list \<Rightarrow> error + 'f poscar" where
  "PosCar_load pf content_list =
     ebind (item content_list 1) (\<lambda>line1.
     ebind (to_float pf line1) (\<lambda>bases_const'.
     let bases_l = map str2list (py_slice content_list 2 5) in
     ebind (item content_list 5) (\<lambda>line5.
     ebind (item content_list 6) (\<lambda>line6.
     ebind (item content_list 7) (\<lambda>line7.
     ebind (item line7 0) (\<lambda>c.
     let data_begin = (if c \<in> set ''Ss'' then 9 else 8) in
     ebind (those_int (str2list line6)) (\<lambda>atoms_num'.
     let ntot' = sum_list atoms_num';
         rows = map str2list (py_slice content_list data_begin (data_begin + ntot'));
         data_l = map (take 3) rows;
         tf_l = map (\<lambda>line_list. if length line_list > 3 then drop 3 line_list
                                 else [''T'', ''T'', ''T'']) rows
     in
     ebind (np_float64 pf bases_l) (\<lambda>bases'.
     ebind (np_float64 pf data_l) (\<lambda>data'.
     let atoms' = str2list line5;
         self = \<lparr>ntot = ntot', atoms = atoms', atoms_num = atoms_num',
                 natoms = zip atoms' atoms_num', data = data',
                 bases_const = bases_const', bases = bases', tf = tf_l,
                 totline = data_begin + ntot'\<rparr>
     in ebind (get_atomco_dict IntList self data') (\<lambda>_. Inr self))))))))))"

text \<open>\<open>PosCar(filename)\<close> on the text of the file: \<open>load\<close>, then \<open>verify\<close>.\<close>

definition PosCar_init :: "(string \<Rightarrow> 'f option) \<Rightarrow> string \<Rightarrow> error + 'f poscar" where
  "PosCar_init pf text =
     ebind (PosCar_load pf (readlines text)) (\<lambda>self.
     ebind (verify self) (\<lambda>_. Inr self))"

text \<open>
  \<open>AtomCo.get_poscar_content\<close> on an object that has \<open>bases_const\<close>, \<open>bases\<close> and \<open>tf\<close>,
  as every \<open>PosCar\<close> has (the keyword arguments are then not read). \<open>natoms\<close> is the
  list that \<open>zip\<close> gave; unpacking \<open>zip(*self.natoms)\<close> into two names is a ValueError
  when it is empty.
\<close>

definition get_poscar_content :: "(nat \<Rightarrow> 'f \<Rightarrow> string) \<Rightarrow> 'f poscar \<Rightarrow> error + string" where
  "get_poscar_content ff self =
     (let content = ''Created by VASPy\<newline>'';
          bases_const' = '' '' @ ff 9 (bases_const self) @ ''\<newline>''
      in
      ebind (concat_rows (\<lambda>basis. ebind (format_fields ff [F 14 8, F 14 8, F 14 8] (map Float basis))
                                    (\<lambda>t. Inr (t @ ''\<newline>'')))
               (bases self)) (\<lambda>bases'.
      if natoms self = [] then Inl ValueError
      else
        let atoms' = concat (map (\<lambda>(a, n). ljust 5 a) (natoms self)) @ ''\<newline>'';
            atoms_num' = concat (map (\<lambda>(a, n). rjust 5 (str_int n)) (natoms self)) @ ''\<newline>'';
            info = ''Selective Dynamics\<newline>Direct\<newline>''
        in
        ebind (concat_rows (\<lambda>(d, t). ebind (format_fields ff [F 18 12, F 18 12, F 18 12, S 5, S 5, S 5]
                                              (map Float d @ map Str t))
                                       (\<lambda>r. Inr (r @ ''\<newline>'')))
                 (zip (data self) (tf self))) (\<lambda>data_tf.
        Inr (content @ bases_const' @ bases' @ atoms' @ atoms_num' @ info @ data_tf))))"

text \<open>
  The loop of \<open>PosCar.constrain_atom\<close>: the first range whose type is \<open>atom\<close> is
  edited and the loop left (\<open>break\<close>).
\<close>

fun constrain_loop ::
  "string \<Rightarrow> string \<Rightarrow> string \<Rightarrow> (string \<times> int \<times> int) list \<Rightarrow> string list list
   \<Rightarrow> error + string list list" where
  "constrain_loop atom to axis [] arr = Inr arr"
| "constrain_loop atom to axis ((atomtype, idx, next_idx) # rest) arr =
     (if atomtype = atom then
        (if axis \<in> set [''x'', ''X''] then np_set_col arr idx next_idx 0 to
         else if axis \<in> set [''y'', ''Y''] then np_set_col arr idx next_idx 1 to
         else if axis \<in> set [''z'', ''Z''] then np_set_col arr idx next_idx 2 to
         else np_set_all arr idx next_idx to)
      else constrain_loop atom to axis rest arr)"

text \<open>
  \<open>PosCar.constrain_atom(atom, to, axis)\<close>. The result is the object after the call and
  what the call gave: the exception raised, or the returned \<open>self.tf\<close>.
\<close>

definition constrain_atom ::
  "'f poscar \<Rightarrow> string \<Rightarrow> string \<Rightarrow> string \<Rightarrow> 'f poscar \<times> (error + string list list)" where
  "constrain_atom s atom to axis =
     (if to \<notin> set [''T'', ''F''] then (s, Inl CarfileValueError)
      else case constrain_loop atom to axis (atom_ranges (atoms s) (atoms_num s)) (tf s) of
             Inl e \<Rightarrow> (s, Inl e)
           | Inr arr \<Rightarrow> (s\<lparr>tf := arr\<rparr>, Inr arr))"

section \<open>XdatCar\<close>

record 'f xdatcar =
  xd_system :: string
  xd_bases_const :: 'f
  xd_bases :: "'f list list"
  xd_atoms :: "string list"
  xd_atoms_num :: "int list"
  xd_ntot :: int
  info_nline :: nat

text \<open>
  \<open>f.readline()\<close> on the lines still to be read: the next line and the rest; at the
  end of the file the empty string, again and again.
\<close>

fun readline :: "string list \<Rightarrow> string \<times> string list" where
  "readline [] = ([], [])"
| "readline (l # ls) = (l, ls)"


text \<open>
  \<open>for i in range(n): data.append(line2list(f.readline()))\<close>: the rows read and the
  lines left. After the end of the file every row is empty.
\<close>

fun read_rows ::
  "(string \<Rightarrow> 'f option) \<Rightarrow> nat \<Rightarrow> string list \<Rightarrow> error + ('f list list \<times> string list)" where
  "read_rows pf 0 f = Inr ([], f)"
| "read_rows pf (Suc n) f =
     (case readline f of
        (data_line, f') \<Rightarrow>
          ebind (line2list pf data_line) (\<lambda>row.
          ebind (read_rows pf n f') (\<lambda>(rows, f''). Inr (row # rows, f''))))"

definition XdatCar_load :: "(string \<Rightarrow> 'f option) \<Rightarrow> string list \<Rightarrow> error + 'f xdatcar" where
  "XdatCar_load pf f0 =
     (case readline f0 of (line0, f1) \<Rightarrow>
      case readline f1 of (line1, f2) \<Rightarrow>
        ebind (to_float pf (strip line1)) (\<lambda>bases_const'.
        ebind (read_rows pf 3 f2) (\<lambda>(bases', f5).
          case readline f5 of (line5, f6) \<Rightarrow>
          case readline f6 of (line6, f7) \<Rightarrow>
            ebind (those_int (str2list line6)) (\<lambda>atoms_num'.
              Inr \<lparr>xd_system = strip line0, xd_bases_const = bases_const', xd_bases = bases',
                   xd_atoms = str2list line5, xd_atoms_num = atoms_num',
                   xd_ntot = sum_list atoms_num', info_nline = 7\<rparr>))))"





section \<open>CifFile\<close>

text \<open>
  \<open>setattr(self, attr, value)\<close> writes onto the object under a name found in the
  file. The attributes that \<open>load\<close> assigns itself afterwards are the fields of the
  record; \<open>attrs\<close> is the dictionary of the other names set on the object, in the order
  they were set. A cell length or angle is a float, every other value a text. A name
  in \<open>attrs\<close> hides the method of the class with that name.
\<close>

datatype 'f attr = Text string | Number 'f

record 'f ciffile = "('f, (string \<times> int) list, int list) atomco" +
  atom_names :: "string list"
  titles :: "string list"
  attrs :: "(string \<times> 'f attr) list"














section \<open>A decimal reading of floats\<close>

text \<open>
  Where a concrete input is run, the float parameters are set to fixed-point decimals:
  a number with at most twelve decimals is the integer count of its \<open>1e-12\<close> units.
  \<open>dec_float\<close> reads a sign, digits and an optional fraction; \<open>dec_fix p\<close> prints with
  \<open>p \<le> 12\<close> decimals, rounding half to even. On these numbers both give what
  \<open>float\<close> and \<open>{:.pf}\<close> give on every text and value used below.
\<close>

definition dec_unsigned :: "string \<Rightarrow> int option" where
  "dec_unsigned s =
     (let ip = takeWhile (\<lambda>c. c \<noteq> CHR ''.'') s;
          fp = drop 1 (dropWhile (\<lambda>c. c \<noteq> CHR ''.'') s)
      in if (ip = [] \<and> fp = []) \<or> 12 < length fp then None
         else case (digits_acc 0 ip, digits_acc 0 fp) of
                (Some a, Some b) \<Rightarrow> Some (int (a * 10 ^ 12 + b * 10 ^ (12 - length fp)))
              | _ \<Rightarrow> None)"

definition dec_float :: "string \<Rightarrow> int option" where
  "dec_float s =
     (case s of
        [] \<Rightarrow> None
      | c # cs \<Rightarrow>
          if c = CHR ''-'' then map_option uminus (dec_unsigned cs)
          else if c = CHR ''+'' then dec_unsigned cs
          else dec_unsigned (c # cs))"

definition round_half_even :: "int \<Rightarrow> int \<Rightarrow> int" where
  "round_half_even v u =
     (let q = v div u; r = v mod u
      in if 2 * r < u then q else if u < 2 * r then q + 1 else if even q then q else q + 1)"

definition dec_fix :: "nat \<Rightarrow> int \<Rightarrow> string" where
  "dec_fix p v =
     (let q = round_half_even v (10 ^ (12 - p));
          a = nat \<bar>q\<bar>;
          frac = nat_digits (a mod 10 ^ p)
      in (if q < 0 then ''-'' else [])
         @ nat_digits (a div 10 ^ p)
         @ (if p = 0 then [] else ''.'' @ replicate (p - length frac) (CHR ''0'') @ frac))"

section \<open>Example inputs\<close>

text \<open>
  A system of two Pt atoms and one O atom, with the floats of \<open>dec_float\<close>.
\<close>

definition PtO_example :: "int poscar" where
  "PtO_example =
     \<lparr>ntot = 3, atoms = [''Pt'', ''O''], atoms_num = [2, 1],
      natoms = [(''Pt'', 2), (''O'', 1)],
      data = [[0, 0, 0], [500000000000, 500000000000, 500000000000],
              [250000000000, 250000000000, 750000000000]],
      bases_const = 1000000000000,
      bases = [[1000000000000, 0, 0], [0, 1000000000000, 0], [0, 0, 1000000000000]],
      tf = [[''T'', ''T'', ''T''], [''T'', ''F'', ''T''], [''T'', ''T'', ''T'']],
      totline = 11\<rparr>"

text \<open>A system of one H atom.\<close>

definition H_example :: "(int, int list, (string \<times> int) list) atomco" where
  "H_example = \<lparr>ntot = 1, atoms = [''H''], atoms_num = [1], natoms = [(''H'', 1)],
                 data = [[0, 0, 0]]\<rparr>"





text \<open>
  A lattice file of one H atom without constraint columns, the object that loading it
  gives, and the text that \<open>get_poscar_content\<close> writes for that object.
\<close>

definition poscar_example :: string where
  "poscar_example = ''H atom\<newline>1.0\<newline>1.0 0.0 0.0\<newline>0.0 1.0 0.0\<newline>0.0 0.0 1.0\<newline>H\<newline>1\<newline>Direct\<newline>0.5 0.5 0.5\<newline>''"

definition poscar_example_loaded :: "int poscar" where
  "poscar_example_loaded =
     \<lparr>ntot = 1, atoms = [''H''], atoms_num = [1], natoms = [(''H'', 1)],
      data = [[500000000000, 500000000000, 500000000000]],
      bases_const = 1000000000000,
      bases = [[1000000000000, 0, 0], [0, 1000000000000, 0], [0, 0, 1000000000000]],
      tf = [[''T'', ''T'', ''T'']], totline = 9\<rparr>"

definition poscar_example_written :: string where
  "poscar_example_written = ''Created by VASPy\<newline> 1.000000000\<newline>    1.00000000    0.00000000    0.00000000\<newline>    0.00000000    1.00000000    0.00000000\<newline>    0.00000000    0.00000000    1.00000000\<newline>H    \<newline>    1\<newline>Selective Dynamics\<newline>Direct\<newline>    0.500000000000    0.500000000000    0.500000000000T    T    T    \<newline>''"

section \<open>Evaluation of the decimal reading\<close>

text \<open>
  The recursive equation of \<open>nat_digits\<close> is used on numerals only, where its test is
  decided.
\<close>

lemma dec_float_simps:
  "dec_float ''0.0'' = Some 0"
  "dec_float ''0.5'' = Some 500000000000"
  "dec_float ''0.25'' = Some 250000000000"
  "dec_float ''1.0'' = Some 1000000000000"
  "dec_float ''3.5'' = Some 3500000000000"
  by (simp_all add: dec_float_def dec_unsigned_def digit_val_def)


lemma replicate_numeral: "replicate (numeral k) x = x # replicate (pred_numeral k) x"
  by (simp add: numeral_eq_Suc)

lemmas nat_digits_eval =
  nat_digits.simps [of 0] nat_digits.simps [of 1] nat_digits.simps [of "Suc 0"] nat_digits.simps [of "numeral k"] for k

lemma dec_fix_simps:
  "dec_fix 9 1000000000000 = ''1.000000000''"
  "dec_fix 8 1000000000000 = ''1.00000000''"
  "dec_fix 8 0 = ''0.00000000''"
  "dec_fix 12 500000000000 = ''0.500000000000''"
  by (simp_all add: dec_fix_def round_half_even_def nat_digits_eval digit_char_def Let_def
      replicate_numeral)

section \<open>The grouping on the two kinds of counts\<close>

lemma collect_Inr: "collect (map (\<lambda>i. Inr (f i)) xs) = Inr (map f xs)"
  by (induction xs) (simp_all add: ebind_def)

lemma get_atomco_dict_IntList:
  "get_atomco_dict IntList s rows =
     Inr (foldl (\<lambda>atomco_dict (atom, idx, next_idx).
                  setdefault atomco_dict atom (py_slice rows idx next_idx))
            [] (atom_ranges (atoms s) (atoms_num s)))"
proof -
  have f: "py_sum_prefix (IntList (atoms_num s)) = (\<lambda>i. Inr (sum_list (take i (atoms_num s))))"
    by (rule ext) simp
  show ?thesis
    unfolding get_atomco_dict_def f collect_Inr
    by (simp add: ebind_def atom_ranges_def idx_list_def Let_def del: upt_Suc)
qed

lemma get_atomco_dict_PairList:
  assumes "atoms s \<noteq> []" and "atoms_num s \<noteq> []"
  shows "get_atomco_dict PairList s rows = Inl TypeError"
proof -
  obtain a as where a: "atoms s = a # as" using assms(1) by (cases "atoms s") auto
  obtain p ps where p: "atoms_num s = p # ps" using assms(2) by (cases "atoms_num s") auto
  have "[1..<length (atoms s) + 1] = 1 # [Suc 1..<length as + 2]"
    using upt_conv_Cons [of 1 "length as + 2"] by (simp add: a del: upt_Suc)
  then show ?thesis
    unfolding get_atomco_dict_def by (simp add: ebind_def p del: upt_Suc)
qed

section \<open>Properties of the constraint edit\<close>

lemma atom_ranges_PtO:
  "atom_ranges [''Pt'', ''O''] [2, 1] = [(''Pt'', 0, 2), (''O'', 2, 3)]"
  by (simp add: atom_ranges_def idx_list_def upt_rec)

lemma constrain_loop_no_match:
  "atom \<notin> fst ` set rs \<Longrightarrow> constrain_loop atom to axis rs arr = Inr arr"
  by (induction rs) auto

lemma length_idx_list: "length (idx_list as ns) = Suc (length as)"
  by (simp add: idx_list_def del: upt_Suc)

lemma map_fst_atom_ranges: "map fst (atom_ranges as ns) = as"
  by (simp add: atom_ranges_def Let_def length_idx_list)

lemma fst_atom_ranges: "fst ` set (atom_ranges as ns) = set as"
  using map_fst_atom_ranges [of as ns] by (metis set_map)

lemma np_set_col_error: "np_set_col arr i j k v \<noteq> Inl CarfileValueError"
  by (simp add: np_set_col_def split: option.splits)

lemma np_set_all_error: "np_set_all arr i j v \<noteq> Inl CarfileValueError"
  by (simp add: np_set_all_def split: option.splits)

lemma constrain_loop_error: "constrain_loop atom to axis rs arr \<noteq> Inl CarfileValueError"
proof (induction rs)
  case Nil
  show ?case by simp
next
  case (Cons r rs)
  obtain t i j where r: "r = (t, i, j)" by (cases r)
  show ?case using Cons by (simp add: r np_set_col_error np_set_all_error)
qed

lemma constrain_loop_other_axis:
  "axis \<notin> set [''x'', ''X'', ''y'', ''Y'', ''z'', ''Z''] \<Longrightarrow>
   constrain_loop atom to axis rs arr = constrain_loop atom to ''all'' rs arr"
  by (induction rs) auto

lemma constrain_loop_find:
  assumes "axis \<notin> set [''x'', ''X'', ''y'', ''Y'', ''z'', ''Z'']"
    and "find (\<lambda>r. fst r = atom) rs = Some (a, i, j)"
  shows "constrain_loop atom to axis rs arr = np_set_all arr i j to"
  using assms by (induction rs) (auto split: if_splits)

text \<open>
  C5. In a system with the atom types Pt, O and the counts 2, 1, whose three
  constraint rows have three flags each, \<open>constrain_atom('O', 'F', 'all')\<close> makes the
  constraint row 2 all-fixed and changes nothing else: the rows 0 and 1 of the
  constraints and every other attribute, the coordinates among them, stay as they were.
\<close>

theorem constrain_atom_example:
  assumes "atoms s = [''Pt'', ''O'']" and "atoms_num s = [2, 1]"
    and "tf s = [t0, t1, t2]"
    and "length t0 = 3" and "length t1 = 3" and "length t2 = 3"
  shows "constrain_atom s ''O'' ''F'' ''all''
           = (s\<lparr>tf := [t0, t1, [''F'', ''F'', ''F'']]\<rparr>, Inr [t0, t1, [''F'', ''F'', ''F'']])"
  using assms
  by (simp add: constrain_atom_def atom_ranges_PtO np_set_all_def ncols_def set_rows_def
      slice_bound_def numeral_3_eq_3)

theorem constrain_atom_example_witness:
  "constrain_atom PtO_example ''O'' ''F'' ''all''
     = (PtO_example\<lparr>tf := [[''T'', ''T'', ''T''], [''T'', ''F'', ''T''], [''F'', ''F'', ''F'']]\<rparr>,
        Inr [[''T'', ''T'', ''T''], [''T'', ''F'', ''T''], [''F'', ''F'', ''F'']])"
  using constrain_atom_example [of PtO_example "[''T'', ''T'', ''T'']" "[''T'', ''F'', ''T'']" "[''T'', ''T'', ''T'']"]
  by (simp add: PtO_example_def)

text \<open>
  C6. \<open>constrain_atom\<close> raises CarfileValueError exactly when the flag is neither
  \<open>'T'\<close> nor \<open>'F'\<close>, and the object is then unchanged; with a valid flag and an atom type
  that the system does not have, the call succeeds, changes nothing and returns the
  constraints as they were.
\<close>

theorem constrain_atom_flag:
  "(snd (constrain_atom s atom to axis) = Inl CarfileValueError \<longleftrightarrow> to \<notin> set [''T'', ''F''])
   \<and> (to \<notin> set [''T'', ''F''] \<longrightarrow> fst (constrain_atom s atom to axis) = s)
   \<and> (to \<in> set [''T'', ''F''] \<and> atom \<notin> set (atoms s) \<longrightarrow>
        constrain_atom s atom to axis = (s, Inr (tf s)))"
proof -
  let ?ok = "to \<in> set [''T'', ''F'']"
  let ?r = "constrain_loop atom to axis (atom_ranges (atoms s) (atoms_num s)) (tf s)"
  have nomatch: "?r = Inr (tf s)" if "atom \<notin> set (atoms s)"
    by (rule constrain_loop_no_match) (simp add: fst_atom_ranges that)
  have bad: "constrain_atom s atom to axis = (s, Inl CarfileValueError)" if "\<not> ?ok"
    using that unfolding constrain_atom_def by (rule if_P)
  have good: "constrain_atom s atom to axis =
        (case ?r of Inl e \<Rightarrow> (s, Inl e) | Inr arr \<Rightarrow> (s\<lparr>tf := arr\<rparr>, Inr arr))" if "?ok"
    unfolding constrain_atom_def using that by (simp only: simp_thms if_False)
  have 1: "snd (constrain_atom s atom to axis) \<noteq> Inl CarfileValueError" if "?ok"
    using constrain_loop_error [of atom to axis "atom_ranges (atoms s) (atoms_num s)" "tf s"]
    unfolding good [OF that] by (cases ?r) simp_all
  have 2: "constrain_atom s atom to axis = (s, Inr (tf s))" if "?ok" "atom \<notin> set (atoms s)"
    unfolding good [OF that(1)] nomatch [OF that(2)] by simp
  have A: "(snd (constrain_atom s atom to axis) = Inl CarfileValueError) = (\<not> ?ok)"
    using 1 bad by (cases ?ok) (simp_all only: snd_conv simp_thms)
  have B: "\<not> ?ok \<longrightarrow> fst (constrain_atom s atom to axis) = s"
  proof (rule impI)
    assume n: "\<not> ?ok"
    show "fst (constrain_atom s atom to axis) = s" unfolding bad [OF n] by simp
  qed
  have C: "?ok \<and> atom \<notin> set (atoms s) \<longrightarrow> constrain_atom s atom to axis = (s, Inr (tf s))"
  proof (rule impI)
    assume h: "?ok \<and> atom \<notin> set (atoms s)"
    show "constrain_atom s atom to axis = (s, Inr (tf s))"
      by (rule 2 [OF conjunct1 [OF h] conjunct2 [OF h]])
  qed
  show ?thesis by (rule conjI [OF A conjI [OF B C]])
qed

theorem constrain_atom_flag_witness:
  "snd (constrain_atom PtO_example ''O'' ''fixed'' ''all'') = Inl CarfileValueError
   \<and> fst (constrain_atom PtO_example ''O'' ''fixed'' ''all'') = PtO_example
   \<and> constrain_atom PtO_example ''H'' ''F'' ''all'' = (PtO_example, Inr (tf PtO_example))"
  using constrain_atom_flag [of PtO_example "''O''" "''fixed''" "''all''"]
    constrain_atom_flag [of PtO_example "''H''" "''F''" "''all''"]
  by (simp add: PtO_example_def)

text \<open>
  C9. An axis that is none of \<open>x X y Y z Z\<close> takes the branch of \<open>'all'\<close>: the call
  gives what it gives with \<open>'all'\<close>, and with a valid flag and a two-dimensional
  constraint array every flag of the rows of the first range of that atom type is set,
  the call returning the new array. So \<open>'q'\<close> acts as \<open>'all'\<close>, silently.
\<close>

theorem constrain_atom_axis:
  assumes "axis \<notin> set [''x'', ''X'', ''y'', ''Y'', ''z'', ''Z'']"
    and "to \<in> set [''T'', ''F'']"
    and "find (\<lambda>r. fst r = atom) (atom_ranges (atoms s) (atoms_num s)) = Some (a, i, j)"
    and "ncols (tf s) = Some w"
  shows "constrain_atom s atom to axis = constrain_atom s atom to ''all''
     \<and> constrain_atom s atom to axis =
         (s\<lparr>tf := set_rows (\<lambda>r. replicate (length r) to) i j (tf s)\<rparr>,
          Inr (set_rows (\<lambda>r. replicate (length r) to) i j (tf s)))"
proof
  show "constrain_atom s atom to axis = constrain_atom s atom to ''all''"
    unfolding constrain_atom_def by (simp only: constrain_loop_other_axis [OF assms(1)])
  have "constrain_loop atom to axis (atom_ranges (atoms s) (atoms_num s)) (tf s)
          = Inr (set_rows (\<lambda>r. replicate (length r) to) i j (tf s))"
    unfolding constrain_loop_find [OF assms(1,3)] by (simp add: np_set_all_def assms(4))
  then show "constrain_atom s atom to axis =
         (s\<lparr>tf := set_rows (\<lambda>r. replicate (length r) to) i j (tf s)\<rparr>,
          Inr (set_rows (\<lambda>r. replicate (length r) to) i j (tf s)))"
    using assms(2) unfolding constrain_atom_def by (simp only: simp_thms if_False sum.case)
qed

theorem constrain_atom_axis_witness:
  "constrain_atom PtO_example ''O'' ''F'' ''q'' = constrain_atom PtO_example ''O'' ''F'' ''all''
   \<and> constrain_atom PtO_example ''O'' ''F'' ''q''
     = (PtO_example\<lparr>tf := [[''T'', ''T'', ''T''], [''T'', ''F'', ''T''], [''F'', ''F'', ''F'']]\<rparr>,
        Inr [[''T'', ''T'', ''T''], [''T'', ''F'', ''T''], [''F'', ''F'', ''F'']])"
proof -
  have 1: "''q'' \<notin> set [''x'', ''X'', ''y'', ''Y'', ''z'', ''Z'']" by simp
  have 2: "''F'' \<in> set [''T'', ''F'']" by simp
  have 3: "find (\<lambda>r. fst r = ''O'') (atom_ranges (atoms PtO_example) (atoms_num PtO_example))
             = Some (''O'', 2, 3)"
    by (simp add: PtO_example_def atom_ranges_PtO)
  have 4: "ncols (tf PtO_example) = Some 3"
    by (simp add: PtO_example_def ncols_def)
  have 5: "set_rows (\<lambda>r. replicate (length r) ''F'') 2 3 (tf PtO_example)
             = [[''T'', ''T'', ''T''], [''T'', ''F'', ''T''], [''F'', ''F'', ''F'']]"
    by (simp add: PtO_example_def set_rows_def slice_bound_def numeral_3_eq_3)
  show ?thesis by (rule constrain_atom_axis [OF 1 2 3 4, unfolded 5])
qed

section \<open>Properties of the frame format\<close>

text \<open>
  C7. Parsing the frame text \<open>"2\nSTEP =    3\nH   0.0 0.0 0.0\nO   1.0 0.0 0.0\n"\<close>
  succeeds, whatever floats the texts \<open>0.0\<close> and \<open>1.0\<close> denote, and gives the total
  count 2, the atom types H, O in the order of their first rows, the counts 1, 1 and
  the step 3.
\<close>

theorem xyz_frame_example:
  assumes "pf ''0.0'' = Some z" and "pf ''1.0'' = Some u"
  shows "XyzFile_init pf ''2\<newline>STEP =    3\<newline>H   0.0 0.0 0.0\<newline>O   1.0 0.0 0.0\<newline>''
         = Inr \<lparr>ntot = 2, atoms = [''H'', ''O''], atoms_num = [1, 1],
                natoms = [(''H'', 1), (''O'', 1)],
                data = [[z, z, z], [u, z, z]], step = 3\<rparr>"
  using assms
  by (simp add: XyzFile_init_def XyzFile_load_def readlines_def ebind_def item_def to_int_def
      py_int_def strip_def isspace_def str2list_def last_item_def nat_of_digits_def digit_val_def
      ncols_def np_float64_def rectangular_def py_float_def first_seen_def get_atomco_dict_IntList
      verify_def Let_def)

theorem xyz_frame_example_witness:
  "XyzFile_init dec_float ''2\<newline>STEP =    3\<newline>H   0.0 0.0 0.0\<newline>O   1.0 0.0 0.0\<newline>''
         = Inr \<lparr>ntot = 2, atoms = [''H'', ''O''], atoms_num = [1, 1],
                natoms = [(''H'', 1), (''O'', 1)],
                data = [[0, 0, 0], [1000000000000, 0, 0]], step = 3\<rparr>"
proof -
  have z: "dec_float ''0.0'' = Some 0"
    by (simp add: dec_float_def dec_unsigned_def digit_val_def)
  have u: "dec_float ''1.0'' = Some 1000000000000"
    by (simp add: dec_float_def dec_unsigned_def digit_val_def)
  show ?thesis by (rule xyz_frame_example [OF z u])
qed

section \<open>Properties of the grouping\<close>

lemma foldl_setdefault_distinct:
  assumes "distinct (map fst rs)" and "set (map fst rs) \<inter> fst ` set acc = {}"
  shows "foldl (\<lambda>d (a, i, j). setdefault d a (g i j)) acc rs
           = acc @ map (\<lambda>(a, i, j). (a, g i j)) rs"
  using assms
proof (induction rs arbitrary: acc)
  case Nil
  then show ?case by simp
next
  case (Cons r rs)
  obtain a i j where r: "r = (a, i, j)" by (cases r)
  have 1: "setdefault acc a (g i j) = acc @ [(a, g i j)]"
    using Cons.prems(2) by (auto simp: setdefault_def r)
  have 2: "set (map fst rs) \<inter> fst ` set (acc @ [(a, g i j)]) = {}"
    using Cons.prems by (auto simp: r)
  have 3: "distinct (map fst rs)" using Cons.prems(1) by simp
  show ?case using Cons.IH [OF 3 2] by (simp add: r 1)
qed

text \<open>The ranges, each with its two prefix sums written out.\<close>

lemma atom_ranges_nth:
  "atom_ranges as ns
     = map (\<lambda>i. (as ! i, sum_list (take i ns), sum_list (take (Suc i) ns))) [0..<length as]"
proof (rule nth_equalityI)
  show "length (atom_ranges as ns)
          = length (map (\<lambda>i. (as ! i, sum_list (take i ns), sum_list (take (Suc i) ns))) [0..<length as])"
    using arg_cong [OF map_fst_atom_ranges [of as ns], of length] by simp
next
  fix i assume "i < length (atom_ranges as ns)"
  then have i: "i < length as"
    using arg_cong [OF map_fst_atom_ranges [of as ns], of length] by simp
  have il: "idx_list as ns ! k = sum_list (take k ns)" if "k \<le> length as" for k
    using that by (cases k) (simp_all add: idx_list_def del: upt_Suc)
  have "atom_ranges as ns ! i = (as ! i, butlast (idx_list as ns) ! i, tl (idx_list as ns) ! i)"
    using i by (simp add: atom_ranges_def Let_def length_idx_list)
  also have "butlast (idx_list as ns) ! i = sum_list (take i ns)"
    using i il [of i] by (simp add: nth_butlast length_idx_list)
  also have "tl (idx_list as ns) ! i = sum_list (take (Suc i) ns)"
    using i il [of "Suc i"] by (simp add: nth_tl length_idx_list)
  finally show "atom_ranges as ns ! i
      = map (\<lambda>i. (as ! i, sum_list (take i ns), sum_list (take (Suc i) ns))) [0..<length as] ! i"
    using i by simp
qed

lemma py_slice_take_drop:
  assumes "0 \<le> a" and "0 \<le> c"
  shows "py_slice xs a (a + c) = take (nat c) (drop (nat a) xs)"
proof -
  have "min (nat (a + c)) (length xs) - min (nat a) (length xs) = min (nat c) (length xs - nat a)"
    using assms by (auto simp: min_def nat_add_distrib)
  then show ?thesis
    using assms by (simp add: py_slice_def slice_bound_def Let_def min_def drop_all)
qed

lemma sum_list_take_Suc:
  "i < length ns \<Longrightarrow> sum_list (take (Suc i) ns) = sum_list (take i ns) + (ns ! i :: int)"
  by (simp add: take_Suc_conv_app_nth)

lemma sum_list_take_nonneg:
  "\<forall>c \<in> set ns. (0 :: int) \<le> c \<Longrightarrow> 0 \<le> sum_list (take i ns)"
  by (rule sum_list_nonneg) (auto dest: in_set_takeD)

lemma concat_blocks:
  assumes "\<forall>c \<in> set ns. (0 :: int) \<le> c"
  shows "concat (map (\<lambda>i. take (nat (ns ! i)) (drop (nat (sum_list (take i ns))) rows)) [0..<length ns])
           = take (nat (sum_list ns)) rows"
  using assms
proof (induction ns rule: rev_induct)
  case Nil
  then show ?case by simp
next
  case (snoc c ns)
  have nn: "\<forall>c \<in> set ns. 0 \<le> c" and c: "0 \<le> c" using snoc.prems by auto
  have s: "0 \<le> sum_list ns" using sum_list_nonneg [of ns] nn by auto
  define F where "F = (\<lambda>i. take (nat ((ns @ [c]) ! i)) (drop (nat (sum_list (take i (ns @ [c])))) rows))"
  define G where "G = (\<lambda>i. take (nat (ns ! i)) (drop (nat (sum_list (take i ns))) rows))"
  have same: "map F [0..<length ns] = map G [0..<length ns]"
    by (rule map_cong) (auto simp: F_def G_def nth_append)
  have last: "F (length ns) = take (nat c) (drop (nat (sum_list ns)) rows)"
    by (simp add: F_def)
  have up: "[0..<length (ns @ [c])] = [0..<length ns] @ [length ns]" by simp
  have "concat (map F [0..<length (ns @ [c])]) = concat (map G [0..<length ns]) @ F (length ns)"
    by (simp only: up map_append concat_append same list.map concat.simps append_Nil2)
  also have "\<dots> = take (nat (sum_list ns)) rows @ take (nat c) (drop (nat (sum_list ns)) rows)"
    using snoc.IH [OF nn] by (simp only: G_def last)
  also have "\<dots> = take (nat (sum_list ns) + nat c) rows"
    by (simp add: take_add)
  also have "\<dots> = take (nat (sum_list (ns @ [c]))) rows"
    using s c by (simp add: nat_add_distrib)
  finally show ?case by (simp only: F_def)
qed

text \<open>
  C4, as amended. \<open>get_atomco_dict\<close> has no test of the number of rows. For a system
  whose counts are integers, none negative, one for each of its distinct atom types and
  with the total \<open>ntot\<close>, it returns for every list of rows, whatever its length, the
  dictionary that gives each type \<open>i\<close> the rows from the sum of the counts before \<open>i\<close>
  on, as many as the count of \<open>i\<close> and as the list has; and when the list has \<open>ntot\<close>
  rows these slices are the whole blocks: put together in the order of the types they
  are the list.
\<close>

theorem get_atomco_dict_slices:
  assumes "distinct (atoms s)"
    and "length (atoms_num s) = length (atoms s)"
    and "\<forall>c \<in> set (atoms_num s). 0 \<le> c"
    and "ntot s = sum_list (atoms_num s)"
  shows "get_atomco_dict IntList s rows
           = Inr (map (\<lambda>i. (atoms s ! i,
                             take (nat (atoms_num s ! i))
                               (drop (nat (sum_list (take i (atoms_num s)))) rows)))
                    [0..<length (atoms s)])
         \<and> (int (length rows) = ntot s \<longrightarrow>
              concat (map (\<lambda>i. take (nat (atoms_num s ! i))
                                 (drop (nat (sum_list (take i (atoms_num s)))) rows))
                        [0..<length (atoms s)]) = rows)"
proof
  let ?as = "atoms s" and ?ns = "atoms_num s"
  have d: "distinct (map fst (atom_ranges ?as ?ns))"
    using assms(1) by (simp add: map_fst_atom_ranges)
  have "get_atomco_dict IntList s rows
          = Inr (map (\<lambda>(atom, idx, next_idx). (atom, py_slice rows idx next_idx)) (atom_ranges ?as ?ns))"
    using foldl_setdefault_distinct [OF d, of "[]" "py_slice rows"]
    by (simp add: get_atomco_dict_IntList)
  also have "map (\<lambda>(atom, idx, next_idx). (atom, py_slice rows idx next_idx)) (atom_ranges ?as ?ns)
          = map (\<lambda>i. (?as ! i, take (nat (?ns ! i)) (drop (nat (sum_list (take i ?ns))) rows)))
              [0..<length ?as]"
  proof -
    have "py_slice rows (sum_list (take i ?ns)) (sum_list (take (Suc i) ?ns))
            = take (nat (?ns ! i)) (drop (nat (sum_list (take i ?ns))) rows)"
      if "i < length ?as" for i
    proof -
      have i: "i < length ?ns" using that assms(2) by simp
      have "0 \<le> ?ns ! i" using assms(3) i by auto
      with py_slice_take_drop [OF sum_list_take_nonneg [OF assms(3), of i] this, of rows]
      show ?thesis by (simp add: sum_list_take_Suc [OF i])
    qed
    then show ?thesis by (simp add: atom_ranges_nth)
  qed
  finally show "get_atomco_dict IntList s rows
           = Inr (map (\<lambda>i. (atoms s ! i,
                             take (nat (atoms_num s ! i))
                               (drop (nat (sum_list (take i (atoms_num s)))) rows)))
                    [0..<length (atoms s)])" .
next
  show "int (length rows) = ntot s \<longrightarrow>
              concat (map (\<lambda>i. take (nat (atoms_num s ! i))
                                 (drop (nat (sum_list (take i (atoms_num s)))) rows))
                        [0..<length (atoms s)]) = rows"
  proof
    assume "int (length rows) = ntot s"
    then have "nat (sum_list (atoms_num s)) = length rows" using assms(4) by simp
    then show "concat (map (\<lambda>i. take (nat (atoms_num s ! i))
                                 (drop (nat (sum_list (take i (atoms_num s)))) rows))
                        [0..<length (atoms s)]) = rows"
      using concat_blocks [OF assms(3), of rows] assms(2) by simp
  qed
qed

theorem get_atomco_dict_slices_witness:
  "get_atomco_dict IntList PtO_example (data PtO_example)
     = Inr [(''Pt'', [[0, 0, 0], [500000000000, 500000000000, 500000000000]]),
            (''O'', [[250000000000, 250000000000, 750000000000]])]
   \<and> concat [[[0, 0, 0], [500000000000, 500000000000, 500000000000]],
              [[250000000000, 250000000000, 750000000000 :: int]]] = data PtO_example"
proof -
  have 1: "distinct (atoms PtO_example)" by (simp add: PtO_example_def)
  have 2: "length (atoms_num PtO_example) = length (atoms PtO_example)" by (simp add: PtO_example_def)
  have 3: "\<forall>c \<in> set (atoms_num PtO_example). 0 \<le> c" by (simp add: PtO_example_def)
  have 4: "ntot PtO_example = sum_list (atoms_num PtO_example)" by (simp add: PtO_example_def)
  have 5: "int (length (data PtO_example)) = ntot PtO_example" by (simp add: PtO_example_def)
  have 6: "map (\<lambda>i. (atoms PtO_example ! i,
                       take (nat (atoms_num PtO_example ! i))
                         (drop (nat (sum_list (take i (atoms_num PtO_example)))) (data PtO_example))))
              [0..<length (atoms PtO_example)]
           = [(''Pt'', [[0, 0, 0], [500000000000, 500000000000, 500000000000]]),
              (''O'', [[250000000000, 250000000000, 750000000000]])]"
    by (simp add: PtO_example_def upt_rec numeral_2_eq_2)
  from get_atomco_dict_slices [OF 1 2 3 4, of "data PtO_example"] 5
  show ?thesis by (simp add: 6) (simp add: PtO_example_def)
qed

text \<open>
  C4 as stated fails: one H atom is declared and two rows are given, and the call
  returns the dictionary with the first row instead of raising.
\<close>

theorem get_atomco_dict_counterexample:
  "int (length [[0, 0, 0], [1, 0, 0 :: int]]) \<noteq> ntot H_example
   \<and> get_atomco_dict IntList H_example [[0, 0, 0], [1, 0, 0 :: int]] = Inr [(''H'', [[0, 0, 0]])]"
  by (simp add: H_example_def get_atomco_dict_IntList atom_ranges_def idx_list_def py_slice_def
      slice_bound_def setdefault_def)

text \<open>On the object of a crystal table with an atom the same method raises.\<close>

lemma get_atomco_dict_cif_example:
  "get_atomco_dict PairList
     \<lparr>ntot = 1, atoms = [''H''], atoms_num = [(''H'', 1 :: int)], natoms = [1 :: int],
      data = [[0, 500000000000, 250000000000 :: int]], atom_names = [''H1''],
      titles = [''atom_site_label''],
      attrs = [(''cell_length_a'', Number (3500000000000 :: int))]\<rparr>
     [[0, 500000000000, 250000000000 :: int]] = Inl TypeError"
  by (rule get_atomco_dict_PairList) simp_all

section \<open>Properties of the crystal table\<close>













section \<open>Properties of the trajectory iteration\<close>






section \<open>Properties of the lattice format\<close>

lemma poscar_example_content:
  "get_poscar_content dec_fix poscar_example_loaded = Inr poscar_example_written"
  by (simp add: get_poscar_content_def poscar_example_loaded_def poscar_example_written_def
      ebind_def format_field_def rjust_def ljust_def dec_fix_simps str_int_def nat_digits_eval
      digit_char_def replicate_numeral)

lemma poscar_example_written_lines:
  "readlines poscar_example_written =
     [''Created by VASPy\<newline>'', '' 1.000000000\<newline>'',
      ''    1.00000000    0.00000000    0.00000000\<newline>'',
      ''    0.00000000    1.00000000    0.00000000\<newline>'',
      ''    0.00000000    0.00000000    1.00000000\<newline>'',
      ''H    \<newline>'', ''    1\<newline>'', ''Selective Dynamics\<newline>'', ''Direct\<newline>'',
      ''    0.500000000000    0.500000000000    0.500000000000T    T    T    \<newline>'']"
  by (simp add: readlines_def poscar_example_written_def)

lemma poscar_example_tokens:
  "str2list ''    0.500000000000    0.500000000000    0.500000000000T    T    T    \<newline>''
     = [''0.500000000000'', ''0.500000000000'', ''0.500000000000T'', ''T'', ''T'']"
  by (simp add: str2list_def isspace_def)

lemma dec_float_glued: "dec_float ''0.500000000000T'' = None"
  by (simp add: dec_float_def dec_unsigned_def digit_val_def)

lemma poscar_example_lines:
  "readlines poscar_example = [''H atom\<newline>'', ''1.0\<newline>'', ''1.0 0.0 0.0\<newline>'', ''0.0 1.0 0.0\<newline>'',
     ''0.0 0.0 1.0\<newline>'', ''H\<newline>'', ''1\<newline>'', ''Direct\<newline>'', ''0.5 0.5 0.5\<newline>'']"
  by (simp add: readlines_def poscar_example_def)

lemma poscar_example_load:
  "PosCar_init dec_float poscar_example = Inr poscar_example_loaded"
  by (simp add: PosCar_init_def PosCar_load_def poscar_example_lines ebind_def item_def
      to_float_def py_float_def strip_def isspace_def dec_float_simps py_slice_def slice_bound_def
      str2list_def those_int_def py_int_def nat_of_digits_def digit_val_def np_float64_def
      rectangular_def ncols_def get_atomco_dict_IntList verify_def poscar_example_loaded_def Let_def)

lemma poscar_example_reload:
  "PosCar_init dec_float poscar_example_written = Inl ValueError"
  by (simp add: PosCar_init_def PosCar_load_def poscar_example_written_lines ebind_def item_def
      to_float_def py_float_def strip_def isspace_def dec_float_def dec_unsigned_def
      py_slice_def slice_bound_def
      str2list_def those_int_def py_int_def nat_of_digits_def digit_val_def np_float64_def
      rectangular_def ncols_def Let_def)

text \<open>
  C1 fails on the code. The lattice file of one H atom is loaded, the object is written
  by \<open>get_poscar_content\<close>, and the text written cannot be loaded again: the format
  \<open>{:5s}\<close> puts the flag at the left of its field, so the third coordinate and the
  first flag make one token, \<open>0.500000000000T\<close>, which is no float.
\<close>

theorem poscar_round_trip_fails:
  "PosCar_init dec_float poscar_example = Inr poscar_example_loaded
   \<and> get_poscar_content dec_fix poscar_example_loaded = Inr poscar_example_written
   \<and> PosCar_init dec_float poscar_example_written = Inl ValueError"
  by (simp only: poscar_example_load poscar_example_content poscar_example_reload simp_thms)


end
